theory Spec2Isabelle
  imports Complex_Main "HOL-Library.Sublist"
begin

section \<open>FormatWave: a shallow embedding of the conversion service\<close>

text \<open>
  The development follows the Python sources: \<^verbatim>\<open>converters/__init__.py\<close> (the registry),
  \<^verbatim>\<open>converters/pdf_converter.py\<close>, \<^verbatim>\<open>converters/image_converter.py\<close> and \<^verbatim>\<open>app.py\<close>
  (the batch pipeline, the preview and download routes, the archive builder and the
  cleanup thread). Strings are \<^typ>\<open>string\<close>; the file system is an explicit value that
  every operation receives and returns; a raised exception is the \<open>Inl\<close> branch of a sum.
\<close>

subsection \<open>Python string operations used by the sources\<close>

text \<open>\<^verbatim>\<open>str.lower()\<close> on ASCII letters; every other character is left as it is.\<close>

definition lower_char :: "char \<Rightarrow> char" where
  "lower_char c =
     (case map_of (zip ''ABCDEFGHIJKLMNOPQRSTUVWXYZ'' ''abcdefghijklmnopqrstuvwxyz'') c of
        Some d \<Rightarrow> d
      | None \<Rightarrow> c)"

definition lower :: "string \<Rightarrow> string" where
  "lower s = map lower_char s"

text \<open>\<^verbatim>\<open>str.strip()\<close>: the ASCII characters for which \<^verbatim>\<open>str.isspace()\<close> holds are
  tab, line feed, vertical tab, form feed, carriage return, the four separators
  \<^verbatim>\<open>0x1c\<close> to \<^verbatim>\<open>0x1f\<close> and the space.\<close>

definition is_space :: "char \<Rightarrow> bool" where
  "is_space c = (c \<in> set [CHR 0x09, CHR 0x0A, CHR 0x0B, CHR 0x0C, CHR 0x0D,
                            CHR 0x1C, CHR 0x1D, CHR 0x1E, CHR 0x1F, CHR '' ''])"

definition strip :: "string \<Rightarrow> string" where
  "strip s = rev (dropWhile is_space (rev (dropWhile is_space s)))"

text \<open>\<^verbatim>\<open>s.split("-to-")\<close>: the pieces between the non-overlapping occurrences of the
  separator, found from the left. The first argument is the piece being collected.\<close>

fun split_to :: "string \<Rightarrow> string \<Rightarrow> string list" where
  "split_to cur [] = [cur]"
| "split_to cur (c # cs) =
     (if take 4 (c # cs) = ''-to-'' then cur # split_to [] (drop 3 cs)
      else split_to (cur @ [c]) cs)"

text \<open>\<^verbatim>\<open>sep.join(xs)\<close>.\<close>

fun join :: "string \<Rightarrow> string list \<Rightarrow> string" where
  "join sep [] = []"
| "join sep [x] = x"
| "join sep (x # y # ys) = x @ sep @ join sep (y # ys)"

text \<open>\<^verbatim>\<open>s.split("_", 1)\<close>: at most one split, at the first underscore.\<close>

definition split_underscore_once :: "string \<Rightarrow> string list" where
  "split_underscore_once s =
     (if CHR ''_'' \<in> set s
      then [takeWhile (\<lambda>c. c \<noteq> CHR ''_'') s, tl (dropWhile (\<lambda>c. c \<noteq> CHR ''_'') s)]
      else [s])"

text \<open>Decimal digits of a natural number, and the format specification \<^verbatim>\<open>:03d\<close>:
  zeros are added on the left up to a width of three.\<close>

fun decimal :: "nat \<Rightarrow> string" where
  "decimal n =
     (if n < 10 then [''0123456789'' ! n]
      else decimal (n div 10) @ [''0123456789'' ! (n mod 10)])"

definition fmt03d :: "nat \<Rightarrow> string" where
  "fmt03d n = replicate (3 - length (decimal n)) (CHR ''0'') @ decimal n"

subsection \<open>Paths (\<^verbatim>\<open>pathlib\<close>)\<close>

text \<open>A path is the list of its components below the file-system root, as \<^verbatim>\<open>pathlib\<close>
  keeps them: empty components and \<^verbatim>\<open>.\<close> are dropped when a path is built, \<^verbatim>\<open>..\<close> is
  kept and only the operating system resolves it.\<close>

type_synonym path = "string list"

fun split_slash :: "string \<Rightarrow> string \<Rightarrow> string list" where
  "split_slash cur [] = [cur]"
| "split_slash cur (c # cs) =
     (if c = CHR ''/'' then cur # split_slash [] cs else split_slash (cur @ [c]) cs)"

definition parts :: "string \<Rightarrow> string list" where
  "parts s = filter (\<lambda>c. c \<noteq> [] \<and> c \<noteq> ''.'') (split_slash [] s)"

text \<open>The operator \<^verbatim>\<open>/\<close>: a right operand that starts with a slash replaces the path.\<close>

definition joinpath :: "path \<Rightarrow> string \<Rightarrow> path" where
  "joinpath p s = (if s \<noteq> [] \<and> hd s = CHR ''/'' then parts s else p @ parts s)"

text \<open>\<^verbatim>\<open>.name\<close>, \<^verbatim>\<open>.suffix\<close> and \<^verbatim>\<open>.stem\<close>. With \<open>i\<close> the index of the last dot of the
  name, the suffix is \<^verbatim>\<open>name[i:]\<close> when \<open>0 < i < len(name) - 1\<close> and empty otherwise;
  \<open>ext\<close> below is what follows that dot.\<close>

definition path_name :: "path \<Rightarrow> string" where
  "path_name p = (if p = [] then [] else last p)"

definition has_suffix :: "string \<Rightarrow> bool" where
  "has_suffix name =
     (let ext = rev (takeWhile (\<lambda>c. c \<noteq> CHR ''.'') (rev name))
      in CHR ''.'' \<in> set name \<and> ext \<noteq> [] \<and> length ext + 1 < length name)"

definition py_suffix :: "string \<Rightarrow> string" where
  "py_suffix name =
     (if has_suffix name
      then CHR ''.'' # rev (takeWhile (\<lambda>c. c \<noteq> CHR ''.'') (rev name))
      else [])"

definition py_stem :: "string \<Rightarrow> string" where
  "py_stem name =
     (if has_suffix name
      then take (length name - length (py_suffix name)) name
      else name)"

subsection \<open>The file system\<close>

text \<open>What the two decoding libraries and the encoders exchange with the service. An
  opened image is a term that records the Pillow calls applied to it; a page either
  renders or makes \<^verbatim>\<open>get_pixmap\<close> raise.\<close>

datatype image =
    Opened string bool
  | Converted string image
  | PastedOnWhite image

datatype page = Page nat | BrokenPage string

text \<open>The bytes of a file. An uploaded file is described by what \<^verbatim>\<open>fitz.open\<close> and
  \<^verbatim>\<open>Image.open\<close> make of it: the document's pages, respectively the mode of the image
  and whether \<^verbatim>\<open>'transparency'\<close> is in \<^verbatim>\<open>img.info\<close>, or the text of the exception raised.
  The other three are what the service writes: a page rendered with
  \<^verbatim>\<open>Matrix(zoom, zoom)\<close> and saved as PNG, an image saved in a target format, and a ZIP
  archive with its members by archive name.\<close>

datatype content =
    Bytes "string + page list" "string + string \<times> bool"
  | RenderedPage page rat
  | SavedImage string image
  | ZipArchive "(string \<times> content) list"

datatype node = Dir | File nat content

text \<open>The file system maps resolved paths to nodes; the root directory \<open>[]\<close> always exists.\<close>

type_synonym filesystem = "(path \<times> node) list"

definition node_at :: "filesystem \<Rightarrow> path \<Rightarrow> node option" where
  "node_at fs p = (if p = [] then Some Dir else map_of fs p)"

text \<open>Resolution of a path by the operating system, component by component: every
  component is looked up in a directory, and \<^verbatim>\<open>..\<close> leads to the parent (the root is its own
  parent). The result is the location the path denotes, whether or not its last component
  exists.\<close>

fun walk :: "filesystem \<Rightarrow> path \<Rightarrow> string list \<Rightarrow> path option" where
  "walk fs cur [] = Some cur"
| "walk fs cur (c # cs) =
     (if node_at fs cur \<noteq> Some Dir then None
      else if c = ''..'' then walk fs (butlast cur) cs
      else walk fs (cur @ [c]) cs)"

definition locate :: "filesystem \<Rightarrow> path \<Rightarrow> path option" where
  "locate fs p =
     (case walk fs [] p of
        None \<Rightarrow> None
      | Some q \<Rightarrow> (if node_at fs q = None then None else Some q))"

text \<open>\<^verbatim>\<open>os.stat\<close>: the node a path leads to; \<open>None\<close> stands for the \<^verbatim>\<open>OSError\<close>.\<close>

definition stat :: "filesystem \<Rightarrow> path \<Rightarrow> node option" where
  "stat fs p = (case locate fs p of None \<Rightarrow> None | Some q \<Rightarrow> node_at fs q)"

definition exists_path :: "filesystem \<Rightarrow> path \<Rightarrow> bool" where
  "exists_path fs p = (stat fs p \<noteq> None)"

definition is_file :: "filesystem \<Rightarrow> path \<Rightarrow> bool" where
  "is_file fs p = (case stat fs p of Some (File n c) \<Rightarrow> True | _ \<Rightarrow> False)"

definition is_dir :: "filesystem \<Rightarrow> path \<Rightarrow> bool" where
  "is_dir fs p = (stat fs p = Some Dir)"

text \<open>Storing a node at a resolved location: an existing entry is replaced where it
  stands, a new one is added at the end.\<close>

fun put :: "path \<Rightarrow> node \<Rightarrow> filesystem \<Rightarrow> filesystem" where
  "put p n [] = [(p, n)]"
| "put p n ((q, m) # fs) = (if q = p then (p, n) # fs else (q, m) # put p n fs)"

text \<open>\<^verbatim>\<open>open(path, "wb")\<close> followed by the write: the parent must resolve to a directory and
  the target must not be a directory; \<open>None\<close> stands for the \<^verbatim>\<open>OSError\<close>.\<close>

definition write_file :: "filesystem \<Rightarrow> path \<Rightarrow> nat \<Rightarrow> content \<Rightarrow> filesystem option" where
  "write_file fs p n c =
     (case walk fs [] p of
        None \<Rightarrow> None
      | Some q \<Rightarrow>
          (if q = [] \<or> node_at fs q = Some Dir \<or> node_at fs (butlast q) \<noteq> Some Dir then None
           else Some (put q (File n c) fs)))"

text \<open>\<^verbatim>\<open>Path.unlink()\<close>: removes a file, raises on a directory or a missing path.\<close>

definition unlink :: "filesystem \<Rightarrow> path \<Rightarrow> filesystem option" where
  "unlink fs p =
     (case locate fs p of
        None \<Rightarrow> None
      | Some q \<Rightarrow>
          (case node_at fs q of
             Some (File n c) \<Rightarrow> Some (filter (\<lambda>e. fst e \<noteq> q) fs)
           | _ \<Rightarrow> None))"

text \<open>\<^verbatim>\<open>shutil.rmtree\<close>: removes a directory with everything below it.\<close>

definition rmtree :: "filesystem \<Rightarrow> path \<Rightarrow> filesystem option" where
  "rmtree fs p =
     (case locate fs p of
        None \<Rightarrow> None
      | Some q \<Rightarrow>
          (if q \<noteq> [] \<and> node_at fs q = Some Dir
           then Some (filter (\<lambda>e. \<not> prefix q (fst e)) fs)
           else None))"

text \<open>\<^verbatim>\<open>Path.mkdir(parents=True, exist_ok=True)\<close> on a path without \<^verbatim>\<open>..\<close>: missing
  directories are created from the top; a file in the way raises.\<close>

fun mkdir_from :: "filesystem \<Rightarrow> path \<Rightarrow> string list \<Rightarrow> filesystem option" where
  "mkdir_from fs cur [] = Some fs"
| "mkdir_from fs cur (c # cs) =
     (case node_at fs (cur @ [c]) of
        Some Dir \<Rightarrow> mkdir_from fs (cur @ [c]) cs
      | Some (File n x) \<Rightarrow> None
      | None \<Rightarrow> mkdir_from (put (cur @ [c]) Dir fs) (cur @ [c]) cs)"

definition mkdir_parents :: "filesystem \<Rightarrow> path \<Rightarrow> filesystem option" where
  "mkdir_parents fs p = mkdir_from fs [] p"

text \<open>\<^verbatim>\<open>Path.iterdir()\<close>: the entries directly inside a directory, as paths; the special
  entries \<^verbatim>\<open>.\<close> and \<^verbatim>\<open>..\<close> are not listed. \<open>None\<close> when the path is not a directory.\<close>

definition child_of :: "path \<Rightarrow> path \<Rightarrow> bool" where
  "child_of q e = (e \<noteq> [] \<and> butlast e = q \<and> last e \<noteq> ''.'' \<and> last e \<noteq> ''..'')"

definition iterdir :: "filesystem \<Rightarrow> path \<Rightarrow> path list option" where
  "iterdir fs p =
     (case locate fs p of
        None \<Rightarrow> None
      | Some q \<Rightarrow>
          (if node_at fs q = Some Dir
           then Some (map (\<lambda>e. p @ [last e]) (remdups (filter (child_of q) (map fst fs))))
           else None))"

subsection \<open>The PDF converter (\<^verbatim>\<open>converters/pdf_converter.py\<close>)\<close>

text \<open>The byte length an encoder (PNG, JPEG, WebP, ZIP) gives to what it writes is not
  decided by the service; every operation that writes takes it as a parameter.\<close>

type_synonym encoder = "content \<Rightarrow> nat"

text \<open>A converter takes the input path and the output directory and returns the list of
  output paths or raises; \<open>Inl\<close> carries the text of the exception.\<close>

type_synonym converter =
  "encoder \<Rightarrow> filesystem \<Rightarrow> path \<Rightarrow> path \<Rightarrow> filesystem \<times> (string + path list)"

text \<open>\<^verbatim>\<open>fitz.open\<close>. The converters only read files of a session's upload directory; what
  the library would make of a directory or of a file the service wrote itself is one fixed
  exception here.\<close>

definition fitz_open :: "filesystem \<Rightarrow> path \<Rightarrow> string + page list" where
  "fitz_open fs p =
     (case stat fs p of
        Some (File n (Bytes pdf img)) \<Rightarrow> pdf
      | _ \<Rightarrow> Inl ''cannot open file'')"

text \<open>The loop over \<^verbatim>\<open>range(len(doc))\<close>: \<open>doc\<close> holds the pages from index \<open>page_num\<close> on.\<close>

fun render_pages ::
  "encoder \<Rightarrow> string \<Rightarrow> path \<Rightarrow> rat \<Rightarrow> page list \<Rightarrow> nat \<Rightarrow> filesystem \<Rightarrow> path list
     \<Rightarrow> filesystem \<times> (string + path list)" where
  "render_pages enc stem output_dir zoom [] page_num fs converted_files =
     (fs, Inr converted_files)"
| "render_pages enc stem output_dir zoom (pg # doc) page_num fs converted_files =
     (case pg of
        BrokenPage msg \<Rightarrow> (fs, Inl msg)
      | Page k \<Rightarrow>
          (let pix = RenderedPage pg zoom;
               output_filename = stem @ ''_page_'' @ fmt03d (page_num + 1) @ ''.png'';
               output_path = joinpath output_dir output_filename
           in case write_file fs output_path (enc pix) pix of
                None \<Rightarrow> (fs, Inl ''cannot save pixmap'')
              | Some fs' \<Rightarrow>
                  render_pages enc stem output_dir zoom doc (page_num + 1) fs'
                    (converted_files @ [output_path])))"

definition convert_pdf_to_png ::
  "nat \<Rightarrow> encoder \<Rightarrow> filesystem \<Rightarrow> path \<Rightarrow> path \<Rightarrow> filesystem \<times> (string + path list)" where
  "convert_pdf_to_png dpi enc fs input_path output_dir =
     (case mkdir_parents fs output_dir of
        None \<Rightarrow> (fs, Inl ''FileExistsError'')
      | Some fs1 \<Rightarrow>
          (case fitz_open fs1 input_path of
             Inl e \<Rightarrow> (fs1, Inl (''Failed to open PDF: '' @ e))
           | Inr doc \<Rightarrow>
               (let zoom = of_nat dpi / 72
                in render_pages enc (py_stem (path_name input_path)) output_dir zoom doc 0 fs1 [])))"

subsection \<open>The image converters (\<^verbatim>\<open>converters/image_converter.py\<close>)\<close>

fun mode :: "image \<Rightarrow> string" where
  "mode (Opened m t) = m"
| "mode (Converted m img) = m"
| "mode (PastedOnWhite img) = ''RGB''"

definition image_open :: "filesystem \<Rightarrow> path \<Rightarrow> string + (string \<times> bool)" where
  "image_open fs p =
     (case stat fs p of
        Some (File n (Bytes pdf img)) \<Rightarrow> img
      | _ \<Rightarrow> Inl ''cannot identify image file'')"

text \<open>The transparency handling of \<^verbatim>\<open>_convert_image\<close>, from the opened image (its mode
  \<open>m\<close>, and \<open>t\<close> for \<^verbatim>\<open>'transparency' in img.info\<close>) to the image that is saved.\<close>

definition prepare_image :: "string \<Rightarrow> string \<Rightarrow> bool \<Rightarrow> image" where
  "prepare_image target_format m t =
     (let img = Opened m t in
      if target_format = ''JPEG'' then
        (if mode img \<in> set [''RGBA'', ''LA'', ''PA'', ''P''] then
           (let img1 = (if mode img = ''P'' then Converted ''RGBA'' img else img)
            in if mode img1 \<in> set [''RGBA'', ''LA''] then PastedOnWhite img1
               else Converted ''RGB'' img1)
         else Converted ''RGB'' img)
      else if target_format \<in> set [''PNG'', ''WEBP''] then
        (if mode img \<in> set [''RGBA'', ''LA'', ''PA''] \<or> (mode img = ''P'' \<and> t)
         then Converted ''RGBA'' img
         else Converted ''RGB'' img)
      else Converted ''RGB'' img)"

text \<open>Transparency as the specification words it: the source has an alpha channel (the
  modes \<^verbatim>\<open>RGBA\<close>, \<^verbatim>\<open>LA\<close> and the palette-with-alpha mode \<^verbatim>\<open>PA\<close>), or it has a palette with a
  transparency index.\<close>

definition carries_transparency :: "string \<Rightarrow> bool \<Rightarrow> bool" where
  "carries_transparency m t = (m \<in> set [''RGBA'', ''LA'', ''PA''] \<or> (m = ''P'' \<and> t))"

text \<open>\<^verbatim>\<open>_convert_image\<close> (an Isabelle name cannot start with an underscore). The keyword
  arguments of \<^verbatim>\<open>img.save\<close> only tune the encoder and are left to the \<open>encoder\<close>.\<close>

definition convert_image ::
  "string \<Rightarrow> string \<Rightarrow> encoder \<Rightarrow> filesystem \<Rightarrow> path \<Rightarrow> path
     \<Rightarrow> filesystem \<times> (string + path list)" where
  "convert_image target_format target_ext enc fs input_path output_dir =
     (case mkdir_parents fs output_dir of
        None \<Rightarrow> (fs, Inl ''FileExistsError'')
      | Some fs1 \<Rightarrow>
          (let output_filename = py_stem (path_name input_path) @ target_ext;
               output_path = joinpath output_dir output_filename
           in case image_open fs1 input_path of
                Inl e \<Rightarrow> (fs1, Inl (''Failed to convert image: '' @ e))
              | Inr (m, t) \<Rightarrow>
                  (let out = SavedImage target_format (prepare_image target_format m t)
                   in case write_file fs1 output_path (enc out) out of
                        None \<Rightarrow> (fs1, Inl (''Failed to convert image: '' @ ''cannot write file''))
                      | Some fs2 \<Rightarrow> (fs2, Inr [output_path]))))"

definition convert_webp_to_png :: converter where
  "convert_webp_to_png = convert_image ''PNG'' ''.png''"

definition convert_png_to_webp :: converter where
  "convert_png_to_webp = convert_image ''WEBP'' ''.webp''"

definition convert_png_to_jpg :: converter where
  "convert_png_to_jpg = convert_image ''JPEG'' ''.jpg''"

definition convert_jpg_to_png :: converter where
  "convert_jpg_to_png = convert_image ''PNG'' ''.png''"

definition convert_bmp_to_png :: converter where
  "convert_bmp_to_png = convert_image ''PNG'' ''.png''"

definition convert_tiff_to_png :: converter where
  "convert_tiff_to_png = convert_image ''PNG'' ''.png''"

subsection \<open>The converter registry (\<^verbatim>\<open>converters/__init__.py\<close>)\<close>

text \<open>The PDF converter is registered with its default resolution of 200 DPI.\<close>

definition CONVERTERS :: "((string \<times> string) \<times> converter) list" where
  "CONVERTERS =
     [((''pdf'', ''png''), convert_pdf_to_png 200),
      ((''webp'', ''png''), convert_webp_to_png),
      ((''png'', ''webp''), convert_png_to_webp),
      ((''png'', ''jpg''), convert_png_to_jpg),
      ((''jpg'', ''png''), convert_jpg_to_png),
      ((''jpeg'', ''png''), convert_jpg_to_png),
      ((''bmp'', ''png''), convert_bmp_to_png),
      ((''tiff'', ''png''), convert_tiff_to_png),
      ((''tif'', ''png''), convert_tiff_to_png)]"

text \<open>One entry of \<^verbatim>\<open>CONVERSION_OPTIONS\<close>; the display fields (label, icon, description)
  are not read by any code path and are left out.\<close>

record conversion_option =
  opt_id :: string
  from_ext :: "string list"
  to_ext :: string

definition CONVERSION_OPTIONS :: "conversion_option list" where
  "CONVERSION_OPTIONS =
     [\<lparr>opt_id = ''pdf-to-png'', from_ext = [''pdf''], to_ext = ''png''\<rparr>,
      \<lparr>opt_id = ''webp-to-png'', from_ext = [''webp''], to_ext = ''png''\<rparr>,
      \<lparr>opt_id = ''png-to-webp'', from_ext = [''png''], to_ext = ''webp''\<rparr>,
      \<lparr>opt_id = ''png-to-jpg'', from_ext = [''png''], to_ext = ''jpg''\<rparr>,
      \<lparr>opt_id = ''jpg-to-png'', from_ext = [''jpg'', ''jpeg''], to_ext = ''png''\<rparr>,
      \<lparr>opt_id = ''bmp-to-png'', from_ext = [''bmp''], to_ext = ''png''\<rparr>,
      \<lparr>opt_id = ''tiff-to-png'', from_ext = [''tiff'', ''tif''], to_ext = ''png''\<rparr>]"

text \<open>\<^verbatim>\<open>get_accepted_extensions\<close>: the \<^verbatim>\<open>from_ext\<close> of the first option with this id,
  the empty list when there is none.\<close>

fun accepted_in :: "conversion_option list \<Rightarrow> string \<Rightarrow> string list" where
  "accepted_in [] cid = []"
| "accepted_in (opt # opts) cid =
     (if opt_id opt = cid then from_ext opt else accepted_in opts cid)"

definition get_accepted_extensions :: "string \<Rightarrow> string list" where
  "get_accepted_extensions cid = accepted_in CONVERSION_OPTIONS cid"

subsection \<open>Resolving the conversion identifier (\<^verbatim>\<open>convert_files\<close>, first part)\<close>

text \<open>\<^verbatim>\<open>CONVERTERS.get((from_format, to_format))\<close> and, when that finds nothing, the
  two alternate spellings the handler tries.\<close>

definition find_converter :: "string \<Rightarrow> string \<Rightarrow> converter option" where
  "find_converter from_format to_format =
     (case map_of CONVERTERS (from_format, to_format) of
        Some c \<Rightarrow> Some c
      | None \<Rightarrow>
          (if from_format = ''jpg'' then map_of CONVERTERS (''jpeg'', to_format)
           else if from_format = ''tiff'' then map_of CONVERTERS (''tif'', to_format)
           else None))"

text \<open>The lookup as the specification words it: each of the two synonym pairs is tried
  in both directions before not-found is reported.\<close>

definition lookup_spec :: "string \<Rightarrow> string \<Rightarrow> converter option" where
  "lookup_spec source target =
     (case map_of CONVERTERS (source, target) of
        Some c \<Rightarrow> Some c
      | None \<Rightarrow>
          (if source = ''jpg'' then map_of CONVERTERS (''jpeg'', target)
           else if source = ''jpeg'' then map_of CONVERTERS (''jpg'', target)
           else if source = ''tiff'' then map_of CONVERTERS (''tif'', target)
           else if source = ''tif'' then map_of CONVERTERS (''tiff'', target)
           else None))"

text \<open>The batch-level errors of the handler, each answered with status 400, and the
  text of the \<^verbatim>\<open>error\<close> field of the JSON body.\<close>

datatype batch_error =
    MissingConversionId
  | InvalidConversionId string
  | UnsupportedConversion string string
  | EmptyBatch
  | TooManyFiles

definition MAX_FILE_SIZE :: nat where
  "MAX_FILE_SIZE = 50 * 1024 * 1024"

definition MAX_FILES_PER_BATCH :: nat where
  "MAX_FILES_PER_BATCH = 20"

fun error_text :: "batch_error \<Rightarrow> string" where
  "error_text MissingConversionId = ''Missing conversion_id parameter''"
| "error_text (InvalidConversionId cid) = ''Invalid conversion_id: '' @ cid"
| "error_text (UnsupportedConversion f t) =
     ''Unsupported conversion: '' @ f @ '' '' @ [CHR 0xE2, CHR 0x86, CHR 0x92] @ '' '' @ t"
| "error_text EmptyBatch = ''No files uploaded''"
| "error_text TooManyFiles =
     ''Too many files. Maximum '' @ decimal MAX_FILES_PER_BATCH @ '' files per batch.''"

text \<open>From the raw form field to the converter: strip, split at \<^verbatim>\<open>-to-\<close>, lower-case both
  parts, look the pair up.\<close>

definition resolve_conversion :: "string \<Rightarrow> batch_error + (string \<times> converter)" where
  "resolve_conversion raw =
     (let conversion_id = strip raw in
      if conversion_id = [] then Inl MissingConversionId
      else
        (case split_to [] conversion_id of
           [p0, p1] \<Rightarrow>
             (let from_format = lower p0; to_format = lower p1 in
              case find_converter from_format to_format of
                None \<Rightarrow> Inl (UnsupportedConversion from_format to_format)
              | Some converter \<Rightarrow> Inr (conversion_id, converter))
         | _ \<Rightarrow> Inl (InvalidConversionId conversion_id)))"

subsection \<open>The batch pipeline (\<^verbatim>\<open>convert_files\<close>)\<close>

definition UPLOAD_DIR :: "path \<Rightarrow> path" where
  "UPLOAD_DIR base = joinpath base ''uploads''"

definition CONVERTED_DIR :: "path \<Rightarrow> path" where
  "CONVERTED_DIR base = joinpath base ''converted''"

text \<open>One uploaded part: the client's filename, the bytes, and \<open>hex8\<close>, the value of
  \<^verbatim>\<open>uuid.uuid4().hex[:8]\<close> drawn when the part is saved.\<close>

record upload =
  filename :: string
  hex8 :: string
  body_len :: nat
  body :: content

text \<open>The entries of the two lists of the response. The field \<^verbatim>\<open>size_human\<close> is a
  formatted floating-point number and is not modelled.\<close>

record result_entry =
  original_name :: string
  converted_name :: string
  file_id :: string
  size :: nat
  previewable :: bool
  preview_url :: "string option"
  download_url :: string

record error_entry =
  failed_name :: string
  message :: string

record loop_state =
  files_now :: filesystem
  results :: "result_entry list"
  errors :: "error_entry list"

text \<open>\<^verbatim>\<open>Path(s).name\<close> for a string.\<close>

definition py_name :: "string \<Rightarrow> string" where
  "py_name s = path_name (parts s)"

text \<open>\<^verbatim>\<open>st_size\<close>; no code path of the service reads the size of a directory.\<close>

fun st_size :: "node \<Rightarrow> nat" where
  "st_size (File n c) = n"
| "st_size Dir = 0"

definition display_name_of :: "string \<Rightarrow> path \<Rightarrow> string" where
  "display_name_of original_filename output_path =
     (let original_stem = py_stem (py_name original_filename);
          stem = py_stem (path_name output_path);
          suffix = py_suffix (path_name output_path)
      in if CHR ''_'' \<in> set stem then
           (let ps = split_underscore_once stem
            in if length ps > 1 then ps ! 1 @ suffix else original_stem @ suffix)
         else path_name output_path)"

definition make_result :: "string \<Rightarrow> string \<Rightarrow> path \<Rightarrow> nat \<Rightarrow> result_entry" where
  "make_result session_id original_filename output_path file_size =
     (let is_previewable =
            (lower (py_suffix (path_name output_path))
               \<in> set [''.png'', ''.jpg'', ''.jpeg'', ''.webp'', ''.bmp''])
      in \<lparr>original_name = original_filename,
          converted_name = display_name_of original_filename output_path,
          file_id = path_name output_path,
          size = file_size,
          previewable = is_previewable,
          preview_url =
            (if is_previewable
             then Some (''/api/preview/'' @ session_id @ ''/'' @ path_name output_path)
             else None),
          download_url = ''/api/download/'' @ session_id @ ''/'' @ path_name output_path\<rparr>)"

text \<open>The inner loop over \<^verbatim>\<open>output_paths\<close>, inside the \<^verbatim>\<open>try\<close>: a result is appended for
  every output path; when \<^verbatim>\<open>stat\<close> raises, the results appended so far stay and the text
  of the exception is returned.\<close>

fun collect_results ::
  "filesystem \<Rightarrow> string \<Rightarrow> string \<Rightarrow> path list \<Rightarrow> result_entry list
     \<Rightarrow> result_entry list \<times> string option" where
  "collect_results fs session_id original_filename [] rs = (rs, None)"
| "collect_results fs session_id original_filename (output_path # rest) rs =
     (case stat fs output_path of
        None \<Rightarrow> (rs, Some ''No such file or directory'')
      | Some nd \<Rightarrow>
          collect_results fs session_id original_filename rest
            (rs @ [make_result session_id original_filename output_path (st_size nd)]))"

text \<open>An exception that no handler of \<^verbatim>\<open>convert_files\<close> catches ends the request; the
  file system stays as it was at that moment.\<close>

type_synonym 'a or_crash = "(string \<times> filesystem) + 'a"

text \<open>The body of the loop from \<^verbatim>\<open>safe_filename\<close> on: save, check the size, convert.\<close>

definition persist_and_convert ::
  "encoder \<Rightarrow> converter \<Rightarrow> string \<Rightarrow> path \<Rightarrow> path \<Rightarrow> upload \<Rightarrow> loop_state
     \<Rightarrow> loop_state or_crash" where
  "persist_and_convert enc converter session_id session_upload_dir session_output_dir file st =
     (let safe_filename = hex8 file @ ''_'' @ filename file;
          upload_path = joinpath session_upload_dir safe_filename
      in case write_file (files_now st) upload_path (body_len file) (body file) of
           None \<Rightarrow> Inl (''cannot save upload'', files_now st)
         | Some fs1 \<Rightarrow>
             (case stat fs1 upload_path of
                None \<Rightarrow> Inl (''No such file or directory'', fs1)
              | Some nd \<Rightarrow>
                  if st_size nd > MAX_FILE_SIZE then
                    (case unlink fs1 upload_path of
                       None \<Rightarrow> Inl (''cannot unlink upload'', fs1)
                     | Some fs2 \<Rightarrow>
                         Inr (st\<lparr>files_now := fs2,
                                 errors := errors st @
                                   [\<lparr>failed_name = filename file,
                                     message = ''File too large. Maximum size: '' @
                                       decimal (MAX_FILE_SIZE div (1024 * 1024)) @ ''MB''\<rparr>]\<rparr>))
                  else
                    (case converter enc fs1 upload_path session_output_dir of
                       (fs2, Inl e) \<Rightarrow>
                         Inr (st\<lparr>files_now := fs2,
                                 errors := errors st @
                                   [\<lparr>failed_name = filename file, message = e\<rparr>]\<rparr>)
                     | (fs2, Inr output_paths) \<Rightarrow>
                         (case collect_results fs2 session_id (filename file) output_paths
                                 (results st) of
                            (rs, None) \<Rightarrow> Inr (st\<lparr>files_now := fs2, results := rs\<rparr>)
                          | (rs, Some e) \<Rightarrow>
                              Inr (st\<lparr>files_now := fs2, results := rs,
                                      errors := errors st @
                                        [\<lparr>failed_name = filename file, message = e\<rparr>]\<rparr>)))))"

text \<open>One iteration of \<^verbatim>\<open>for file in files\<close>.\<close>

definition process_file ::
  "encoder \<Rightarrow> converter \<Rightarrow> string list \<Rightarrow> string \<Rightarrow> path \<Rightarrow> path \<Rightarrow> upload \<Rightarrow> loop_state
     \<Rightarrow> loop_state or_crash" where
  "process_file enc converter accepted_exts session_id session_upload_dir session_output_dir
       file st =
     (if filename file = [] then Inr st
      else
        (let file_ext =
               dropWhile (\<lambda>c. c = CHR ''.'') (lower (py_suffix (py_name (filename file))))
         in if accepted_exts \<noteq> [] \<and> file_ext \<notin> set accepted_exts then
              Inr (st\<lparr>errors := errors st @
                     [\<lparr>failed_name = filename file,
                       message = ''Invalid file type '' @ [CHR 0x27] @ ''.'' @ file_ext @
                         [CHR 0x27] @ ''. Expected: '' @ join '', '' accepted_exts\<rparr>]\<rparr>)
            else
              persist_and_convert enc converter session_id session_upload_dir
                session_output_dir file st))"

fun process_files ::
  "encoder \<Rightarrow> converter \<Rightarrow> string list \<Rightarrow> string \<Rightarrow> path \<Rightarrow> path \<Rightarrow> upload list
     \<Rightarrow> loop_state \<Rightarrow> loop_state or_crash" where
  "process_files enc converter accepted_exts session_id updir outdir [] st = Inr st"
| "process_files enc converter accepted_exts session_id updir outdir (file # rest) st =
     (case process_file enc converter accepted_exts session_id updir outdir file st of
        Inl crash \<Rightarrow> Inl crash
      | Inr st' \<Rightarrow> process_files enc converter accepted_exts session_id updir outdir rest st')"

record batch_result =
  session_id_of :: string
  batch_results :: "result_entry list"
  batch_errors :: "error_entry list"
  total_converted :: nat
  total_errors :: nat
  download_all_url :: "string option"

datatype response =
    BadRequest batch_error
  | ServerError string
  | OkBatch batch_result

text \<open>\<^verbatim>\<open>convert_files\<close>. The arguments are the encoder, \<^verbatim>\<open>BASE_DIR\<close>, the form field
  \<^verbatim>\<open>conversion_id\<close> (empty when absent), the parts named \<^verbatim>\<open>files\<close>, the value of
  \<^verbatim>\<open>str(uuid.uuid4())[:12]\<close> drawn for the session, and the file system.\<close>

definition convert_files ::
  "encoder \<Rightarrow> path \<Rightarrow> string \<Rightarrow> upload list \<Rightarrow> string \<Rightarrow> filesystem
     \<Rightarrow> filesystem \<times> response" where
  "convert_files enc base raw_conversion_id files session_id fs =
     (case resolve_conversion raw_conversion_id of
        Inl err \<Rightarrow> (fs, BadRequest err)
      | Inr (conversion_id, converter) \<Rightarrow>
          if files = [] \<or> list_all (\<lambda>f. filename f = []) files then (fs, BadRequest EmptyBatch)
          else if length files > MAX_FILES_PER_BATCH then (fs, BadRequest TooManyFiles)
          else
            (let accepted_exts = get_accepted_extensions conversion_id;
                 session_upload_dir = joinpath (UPLOAD_DIR base) session_id;
                 session_output_dir = joinpath (CONVERTED_DIR base) session_id
             in case mkdir_parents fs session_upload_dir of
                  None \<Rightarrow> (fs, ServerError ''FileExistsError'')
                | Some fs1 \<Rightarrow>
                    (case mkdir_parents fs1 session_output_dir of
                       None \<Rightarrow> (fs1, ServerError ''FileExistsError'')
                     | Some fs2 \<Rightarrow>
                         (case process_files enc converter accepted_exts session_id
                                 session_upload_dir session_output_dir files
                                 \<lparr>files_now = fs2, results = [], errors = []\<rparr> of
                            Inl (e, fs3) \<Rightarrow> (fs3, ServerError e)
                          | Inr st \<Rightarrow>
                              (files_now st,
                               OkBatch
                                 \<lparr>session_id_of = session_id,
                                   batch_results = results st,
                                   batch_errors = errors st,
                                   total_converted = length (results st),
                                   total_errors = length (errors st),
                                   download_all_url =
                                     (if results st \<noteq> []
                                      then Some (''/api/download-all/'' @ session_id)
                                      else None)\<rparr>)))))"

subsection \<open>Preview, download and the archive (\<^verbatim>\<open>app.py\<close>)\<close>

text \<open>The routes take \<^verbatim>\<open>session_id\<close> and \<^verbatim>\<open>filename\<close> (here \<open>fname\<close>) from URL
  segments: Flask's default converter accepts any non-empty text without a slash.\<close>

definition url_segment :: "string \<Rightarrow> bool" where
  "url_segment s = (s \<noteq> [] \<and> CHR ''/'' \<notin> set s)"

datatype file_response =
    NotFound string
  | SendFile path bool "string option"
  | Failed string

definition preview_file :: "path \<Rightarrow> filesystem \<Rightarrow> string \<Rightarrow> string \<Rightarrow> file_response" where
  "preview_file base fs session_id fname =
     (let file_path = joinpath (joinpath (CONVERTED_DIR base) session_id) fname
      in if \<not> exists_path fs file_path then NotFound ''File not found''
         else SendFile file_path False None)"

definition download_file :: "path \<Rightarrow> filesystem \<Rightarrow> string \<Rightarrow> string \<Rightarrow> file_response" where
  "download_file base fs session_id fname =
     (let file_path = joinpath (joinpath (CONVERTED_DIR base) session_id) fname
      in if \<not> exists_path fs file_path then NotFound ''File not found''
         else SendFile file_path True (Some fname))"

text \<open>The members \<^verbatim>\<open>zf.write(str(file_path), file_path.name)\<close> adds for the listed
  entries: the regular files, under their names.\<close>

fun zip_members :: "filesystem \<Rightarrow> path list \<Rightarrow> (string \<times> content) list" where
  "zip_members fs [] = []"
| "zip_members fs (file_path # rest) =
     (case stat fs file_path of
        Some (File n c) \<Rightarrow> (path_name file_path, c) # zip_members fs rest
      | _ \<Rightarrow> zip_members fs rest)"

text \<open>\<^verbatim>\<open>download_all\<close>. Opening the archive for writing creates or truncates the file
  before the session directory is listed; closing it writes the members. Every
  exception inside the \<^verbatim>\<open>try\<close> becomes status 500.\<close>

definition download_all ::
  "encoder \<Rightarrow> path \<Rightarrow> filesystem \<Rightarrow> string \<Rightarrow> filesystem \<times> file_response" where
  "download_all enc base fs session_id =
     (let session_dir = joinpath (CONVERTED_DIR base) session_id
      in if \<not> exists_path fs session_dir then (fs, NotFound ''Session not found'')
         else
           (let zip_filename = ''FormatWave_'' @ session_id @ ''.zip'';
                zip_path = joinpath (CONVERTED_DIR base) zip_filename
            in case write_file fs zip_path (enc (ZipArchive [])) (ZipArchive []) of
                 None \<Rightarrow> (fs, Failed ''Failed to create ZIP: cannot open archive'')
               | Some fs1 \<Rightarrow>
                   (case iterdir fs1 session_dir of
                      None \<Rightarrow> (fs1, Failed ''Failed to create ZIP: NotADirectoryError'')
                    | Some items \<Rightarrow>
                        (let archive = ZipArchive (zip_members fs1 items)
                         in case write_file fs1 zip_path (enc archive) archive of
                              None \<Rightarrow> (fs1, Failed ''Failed to create ZIP: cannot write archive'')
                            | Some fs2 \<Rightarrow> (fs2, SendFile zip_path True (Some zip_filename))))))"

subsection \<open>The cleanup thread (\<^verbatim>\<open>cleanup_old_files\<close>)\<close>

definition CLEANUP_AGE_SECONDS :: rat where
  "CLEANUP_AGE_SECONDS = 3600"

text \<open>What the thread reads from its surroundings in one cycle: the clock, the
  modification time of an entry, and whether removing an entry raises.\<close>

record cycle =
  now :: rat
  st_mtime :: "path \<Rightarrow> rat"
  delete_raises :: "path \<Rightarrow> bool"

text \<open>The body of the \<^verbatim>\<open>try\<close> for one entry; every exception is swallowed and leaves the
  entry where it is.\<close>

definition sweep_item :: "cycle \<Rightarrow> path \<Rightarrow> filesystem \<Rightarrow> filesystem" where
  "sweep_item cy item fs =
     (case stat fs item of
        None \<Rightarrow> fs
      | Some nd \<Rightarrow>
          (let age = now cy - st_mtime cy item
           in if age > CLEANUP_AGE_SECONDS then
                (if delete_raises cy item then fs
                 else if is_dir fs item then
                   (case rmtree fs item of None \<Rightarrow> fs | Some fs' \<Rightarrow> fs')
                 else
                   (case unlink fs item of None \<Rightarrow> fs | Some fs' \<Rightarrow> fs'))
              else fs))"

fun sweep_items :: "cycle \<Rightarrow> path list \<Rightarrow> filesystem \<Rightarrow> filesystem" where
  "sweep_items cy [] fs = fs"
| "sweep_items cy (item # items) fs = sweep_items cy items (sweep_item cy item fs)"

text \<open>The loop over the two roots. \<^verbatim>\<open>iterdir\<close> stands outside the \<^verbatim>\<open>try\<close>: when it raises,
  the exception leaves the function and the thread ends.\<close>

fun sweep_directories :: "cycle \<Rightarrow> path list \<Rightarrow> filesystem \<Rightarrow> string + filesystem" where
  "sweep_directories cy [] fs = Inr fs"
| "sweep_directories cy (directory # rest) fs =
     (if \<not> exists_path fs directory then sweep_directories cy rest fs
      else
        (case iterdir fs directory of
           None \<Rightarrow> Inl ''NotADirectoryError''
         | Some items \<Rightarrow> sweep_directories cy rest (sweep_items cy items fs)))"

text \<open>\<^verbatim>\<open>while True\<close>: one cycle for every element of the list, which holds what the thread
  reads in its successive cycles; the thread is still running after them exactly when the
  result is \<open>Inr\<close>.\<close>

fun cleanup_old_files :: "path \<Rightarrow> cycle list \<Rightarrow> filesystem \<Rightarrow> string + filesystem" where
  "cleanup_old_files base [] fs = Inr fs"
| "cleanup_old_files base (cy # later) fs =
     (case sweep_directories cy [UPLOAD_DIR base, CONVERTED_DIR base] fs of
        Inl e \<Rightarrow> Inl e
      | Inr fs' \<Rightarrow> cleanup_old_files base later fs')"

section \<open>Properties\<close>

lemma map_of_CONVERTERS:
  "map_of CONVERTERS (f, t) =
     (if f = ''pdf'' \<and> t = ''png'' then Some (convert_pdf_to_png 200)
      else if f = ''webp'' \<and> t = ''png'' then Some convert_webp_to_png
      else if f = ''png'' \<and> t = ''webp'' then Some convert_png_to_webp
      else if f = ''png'' \<and> t = ''jpg'' then Some convert_png_to_jpg
      else if f = ''jpg'' \<and> t = ''png'' then Some convert_jpg_to_png
      else if f = ''jpeg'' \<and> t = ''png'' then Some convert_jpg_to_png
      else if f = ''bmp'' \<and> t = ''png'' then Some convert_bmp_to_png
      else if f = ''tiff'' \<and> t = ''png'' then Some convert_tiff_to_png
      else if f = ''tif'' \<and> t = ''png'' then Some convert_tiff_to_png
      else None)"
  by (simp add: CONVERTERS_def)

subsection \<open>Evaluation on concrete inputs\<close>

lemmas path_eval =
  joinpath_def parts_def path_name_def py_name_def py_stem_def py_suffix_def
  has_suffix_def UPLOAD_DIR_def CONVERTED_DIR_def

lemmas fs_eval =
  node_at_def locate_def stat_def exists_path_def is_file_def is_dir_def
  write_file_def unlink_def rmtree_def mkdir_parents_def iterdir_def child_of_def

lemmas pipeline_eval =
  convert_files_def process_file_def persist_and_convert_def
  get_accepted_extensions_def CONVERSION_OPTIONS_def MAX_FILE_SIZE_def MAX_FILES_PER_BATCH_def
  make_result_def display_name_of_def split_underscore_once_def

lemmas converter_eval =
  convert_pdf_to_png_def convert_image_def fitz_open_def image_open_def
  prepare_image_def convert_jpg_to_png_def convert_png_to_jpg_def convert_tiff_to_png_def

lemma fmt03d_small: "fmt03d (Suc 0) = ''001''" "fmt03d 2 = ''002''"
  by (simp_all add: fmt03d_def numeral_2_eq_2)

subsection \<open>Paths without a slash or a parent reference\<close>

lemma split_slash_plain: "CHR ''/'' \<notin> set s \<Longrightarrow> split_slash cur s = [cur @ s]"
  by (induction s arbitrary: cur) auto

lemma parts_plain:
  "CHR ''/'' \<notin> set s \<Longrightarrow> parts s = (if s = [] \<or> s = ''.'' then [] else [s])"
  by (simp add: parts_def split_slash_plain)

lemma joinpath_plain:
  "CHR ''/'' \<notin> set s \<Longrightarrow> joinpath p s = (if s = [] \<or> s = ''.'' then p else p @ [s])"
  by (cases s) (auto simp add: joinpath_def parts_plain)

lemma UPLOAD_DIR_eq: "UPLOAD_DIR base = base @ [''uploads'']"
  by (simp add: UPLOAD_DIR_def joinpath_plain)

lemma CONVERTED_DIR_eq: "CONVERTED_DIR base = base @ [''converted'']"
  by (simp add: CONVERTED_DIR_def joinpath_plain)

lemma walk_plain: "''..'' \<notin> set cs \<Longrightarrow> walk fs cur cs = Some r \<Longrightarrow> r = cur @ cs"
proof (induction cs arbitrary: cur)
  case Nil
  then show ?case by simp
next
  case (Cons c cs)
  from Cons.prems have "walk fs (cur @ [c]) cs = Some r"
    by (auto split: if_splits)
  with Cons.IH[of "cur @ [c]"] Cons.prems(1) show ?case by simp
qed

lemma walk_append:
  "walk fs cur (xs @ ys) = (case walk fs cur xs of None \<Rightarrow> None | Some r \<Rightarrow> walk fs r ys)"
  by (induction xs arbitrary: cur) auto

lemma locate_plain: "''..'' \<notin> set p \<Longrightarrow> locate fs p = Some q \<Longrightarrow> q = p"
  using walk_plain[of p fs "[]" q] by (auto simp: locate_def split: option.splits if_splits)

lemmas resolve_eval =
  resolve_conversion_def strip_def is_space_def lower_def lower_char_def
  find_converter_def map_of_CONVERTERS

subsection \<open>The registry lookup\<close>

text \<open>
  Claim C4. Every lookup of the handler gives what a lookup with synonym fallback in both
  directions gives (\<open>lookup_spec\<close> tries \<^verbatim>\<open>jpg\<close>/\<^verbatim>\<open>jpeg\<close> and \<^verbatim>\<open>tiff\<close>/\<^verbatim>\<open>tif\<close> each way round;
  the handler itself only falls back from \<^verbatim>\<open>jpg\<close> to \<^verbatim>\<open>jpeg\<close> and from \<^verbatim>\<open>tiff\<close> to \<^verbatim>\<open>tif\<close>,
  and the registry lists both spellings of each pair). Both spellings of a pair find the
  same function, and every supported conversion identifier, that is the identifier of
  every entry of \<^verbatim>\<open>CONVERSION_OPTIONS\<close> and the identifier \<^verbatim>\<open>f-to-t\<close> of every key of the
  registry, resolves to a converter.
\<close>

theorem registry_lookup_resolves_synonyms:
  "(\<forall>source target. find_converter source target = lookup_spec source target)
   \<and> find_converter ''jpg'' ''png'' = Some convert_jpg_to_png
   \<and> find_converter ''jpeg'' ''png'' = Some convert_jpg_to_png
   \<and> find_converter ''tiff'' ''png'' = Some convert_tiff_to_png
   \<and> find_converter ''tif'' ''png'' = Some convert_tiff_to_png
   \<and> list_all (\<lambda>opt. \<exists>c. resolve_conversion (opt_id opt) = Inr (opt_id opt, c))
         CONVERSION_OPTIONS
   \<and> list_all (\<lambda>((f, t), c). resolve_conversion (f @ ''-to-'' @ t) = Inr (f @ ''-to-'' @ t, c))
         CONVERTERS
   \<and> resolve_conversion ''jpg-to-png'' = Inr (''jpg-to-png'', convert_jpg_to_png)
   \<and> resolve_conversion ''jpeg-to-png'' = Inr (''jpeg-to-png'', convert_jpg_to_png)"
proof -
  have both_ways: "\<forall>source target. find_converter source target = lookup_spec source target"
    by (simp add: find_converter_def lookup_spec_def map_of_CONVERTERS)
  have options:
    "list_all (\<lambda>opt. \<exists>c. resolve_conversion (opt_id opt) = Inr (opt_id opt, c))
       CONVERSION_OPTIONS"
    by (simp add: CONVERSION_OPTIONS_def resolve_eval)
  have keys:
    "list_all (\<lambda>((f, t), c). resolve_conversion (f @ ''-to-'' @ t) = Inr (f @ ''-to-'' @ t, c))
       CONVERTERS"
    by (simp add: CONVERTERS_def resolve_eval)
  have ids:
    "resolve_conversion ''jpg-to-png'' = Inr (''jpg-to-png'', convert_jpg_to_png)"
    "resolve_conversion ''jpeg-to-png'' = Inr (''jpeg-to-png'', convert_jpg_to_png)"
    by (simp_all add: resolve_eval)
  have pairs:
    "find_converter ''jpg'' ''png'' = Some convert_jpg_to_png"
    "find_converter ''jpeg'' ''png'' = Some convert_jpg_to_png"
    "find_converter ''tiff'' ''png'' = Some convert_tiff_to_png"
    "find_converter ''tif'' ''png'' = Some convert_tiff_to_png"
    by (simp_all add: find_converter_def map_of_CONVERTERS)
  from both_ways options keys ids pairs show ?thesis by blast
qed

subsection \<open>Preview and download stay below the converted root\<close>

text \<open>
  Claim C2, as stated, fails. The routes join \<^verbatim>\<open>session_id\<close> and \<^verbatim>\<open>filename\<close> onto the converted
  root without looking at them, and a URL segment may be \<^verbatim>\<open>..\<close>: the request
  \<^verbatim>\<open>/api/preview/../app.py\<close> is answered with the file \<^verbatim>\<open>app.py\<close> of the base directory, which
  lies outside the converted root.
\<close>

theorem dotdot_segment_escapes_root:
  "url_segment ''..'' \<and> url_segment ''app.py''
   \<and> preview_file [''srv''] [([''srv''], Dir), ([''srv'', ''converted''], Dir),
         ([''srv'', ''app.py''], File 10285 (Bytes (Inl ''no PDF'') (Inl ''no image'')))]
        ''..'' ''app.py'' = SendFile [''srv'', ''converted'', ''..'', ''app.py''] False None
   \<and> locate [([''srv''], Dir), ([''srv'', ''converted''], Dir),
         ([''srv'', ''app.py''], File 10285 (Bytes (Inl ''no PDF'') (Inl ''no image'')))]
        [''srv'', ''converted'', ''..'', ''app.py''] = Some [''srv'', ''app.py'']
   \<and> \<not> prefix (CONVERTED_DIR [''srv'']) [''srv'', ''app.py'']"
  by (simp add: url_segment_def preview_file_def path_eval fs_eval)

text \<open>
  Claim C2, amended. When neither of the two URL segments is \<^verbatim>\<open>..\<close> (and the base directory
  is given without \<^verbatim>\<open>..\<close>), the file that preview and download send lies below the converted
  root; a path that does not lead to an existing entry is answered with not-found, by both
  routes.
\<close>

theorem served_path_inside_root:
  assumes "url_segment session_id" "url_segment fname"
    and "session_id \<noteq> ''..''" "fname \<noteq> ''..''" "''..'' \<notin> set base"
  shows "(\<not> exists_path fs (joinpath (joinpath (CONVERTED_DIR base) session_id) fname)
            \<longrightarrow> preview_file base fs session_id fname = NotFound ''File not found''
              \<and> download_file base fs session_id fname = NotFound ''File not found'')
       \<and> (\<forall>p a d. preview_file base fs session_id fname = SendFile p a d
                     \<or> download_file base fs session_id fname = SendFile p a d
            \<longrightarrow> (\<exists>q. locate fs p = Some q \<and> prefix (CONVERTED_DIR base) q))"
proof -
  let ?fp = "joinpath (joinpath (CONVERTED_DIR base) session_id) fname"
  have nodd: "''..'' \<notin> set ?fp"
    using assms by (auto simp: url_segment_def joinpath_plain CONVERTED_DIR_eq)
  have pre: "prefix (CONVERTED_DIR base) ?fp"
    using assms by (auto simp: url_segment_def joinpath_plain CONVERTED_DIR_eq)
  have nf: "\<not> exists_path fs ?fp \<Longrightarrow> preview_file base fs session_id fname = NotFound ''File not found''
              \<and> download_file base fs session_id fname = NotFound ''File not found''"
    by (simp add: preview_file_def download_file_def)
  have sf: "\<exists>q. locate fs p = Some q \<and> prefix (CONVERTED_DIR base) q"
    if "preview_file base fs session_id fname = SendFile p a d
                     \<or> download_file base fs session_id fname = SendFile p a d" for p a d
  proof -
    from that have p: "p = ?fp" and ex: "exists_path fs ?fp"
      by (auto simp: preview_file_def download_file_def Let_def split: if_splits)
    from ex obtain q where q: "locate fs ?fp = Some q"
      by (auto simp: exists_path_def stat_def split: option.splits)
    with nodd have "q = ?fp" by (rule locate_plain)
    with q pre p show ?thesis by simp
  qed
  from nf sf show ?thesis by blast
qed

text \<open>The witness: a converted file of a session is served from below the root.\<close>

theorem served_path_inside_root_witness:
  "url_segment ''5f0c1a2b-9d4'' \<and> url_segment ''0a1b2c3d_a.png''
   \<and> ''5f0c1a2b-9d4'' \<noteq> ''..'' \<and> ''0a1b2c3d_a.png'' \<noteq> ''..'' \<and> ''..'' \<notin> set [''srv'']
   \<and> preview_file [''srv''] [([''srv''], Dir), ([''srv'', ''converted''], Dir),
         ([''srv'', ''converted'', ''5f0c1a2b-9d4''], Dir),
         ([''srv'', ''converted'', ''5f0c1a2b-9d4'', ''0a1b2c3d_a.png''],
            File 7 (SavedImage ''PNG'' (Converted ''RGB'' (Opened ''RGB'' False))))]
        ''5f0c1a2b-9d4'' ''0a1b2c3d_a.png''
       = SendFile [''srv'', ''converted'', ''5f0c1a2b-9d4'', ''0a1b2c3d_a.png''] False None
   \<and> (\<exists>q. locate [([''srv''], Dir), ([''srv'', ''converted''], Dir),
         ([''srv'', ''converted'', ''5f0c1a2b-9d4''], Dir),
         ([''srv'', ''converted'', ''5f0c1a2b-9d4'', ''0a1b2c3d_a.png''],
            File 7 (SavedImage ''PNG'' (Converted ''RGB'' (Opened ''RGB'' False))))]
        [''srv'', ''converted'', ''5f0c1a2b-9d4'', ''0a1b2c3d_a.png''] = Some q
        \<and> prefix (CONVERTED_DIR [''srv'']) q)"
proof -
  let ?fs = "[([''srv''], Dir), ([''srv'', ''converted''], Dir),
         ([''srv'', ''converted'', ''5f0c1a2b-9d4''], Dir),
         ([''srv'', ''converted'', ''5f0c1a2b-9d4'', ''0a1b2c3d_a.png''],
            File 7 (SavedImage ''PNG'' (Converted ''RGB'' (Opened ''RGB'' False))))]"
  have seg: "url_segment ''5f0c1a2b-9d4''" "url_segment ''0a1b2c3d_a.png''"
    by (simp_all add: url_segment_def)
  have ne: "''5f0c1a2b-9d4'' \<noteq> ''..''" "''0a1b2c3d_a.png'' \<noteq> ''..''" "''..'' \<notin> set [''srv'']"
    by simp_all
  have run: "preview_file [''srv''] ?fs ''5f0c1a2b-9d4'' ''0a1b2c3d_a.png''
       = SendFile [''srv'', ''converted'', ''5f0c1a2b-9d4'', ''0a1b2c3d_a.png''] False None"
    by (simp add: preview_file_def path_eval fs_eval)
  from served_path_inside_root[OF seg ne, of ?fs] run
  have "\<exists>q. locate ?fs [''srv'', ''converted'', ''5f0c1a2b-9d4'', ''0a1b2c3d_a.png''] = Some q
        \<and> prefix (CONVERTED_DIR [''srv'']) q" by blast
  with seg ne run show ?thesis by blast
qed

subsection \<open>The batch-level checks\<close>

text \<open>
  Claim C3, as stated, fails. The handler tests for an empty batch first and for the number
  of files second: a batch of 21 parts that all have an empty filename is rejected as
  empty, not as too large.
\<close>

theorem empty_names_checked_before_count:
  "length (replicate 21 \<lparr>filename = [], hex8 = ''0a1b2c3d'', body_len = 0,
                          body = Bytes (Inl ''no PDF'') (Inl ''no image'')\<rparr>) > MAX_FILES_PER_BATCH
   \<and> convert_files (\<lambda>c. 0) [''srv''] ''pdf-to-png''
       (replicate 21 \<lparr>filename = [], hex8 = ''0a1b2c3d'', body_len = 0,
                        body = Bytes (Inl ''no PDF'') (Inl ''no image'')\<rparr>)
       ''5f0c1a2b-9d4'' [([''srv''], Dir)]
     = ([([''srv''], Dir)], BadRequest EmptyBatch)
   \<and> BadRequest EmptyBatch \<noteq> BadRequest TooManyFiles"
  by (simp add: convert_files_def resolve_eval MAX_FILES_PER_BATCH_def list_all_iff)

text \<open>
  Claim C3, amended. The batch-level checks run before any file is processed, so the file
  system is returned unchanged: a conversion identifier that does not resolve is rejected
  with its error; otherwise a batch without a part that has a non-empty filename is rejected
  as \<open>EmptyBatch\<close>, whatever its size; otherwise a batch of more than 20 parts is rejected as
  \<open>TooManyFiles\<close>.
\<close>

theorem batch_checks_before_processing:
  "(resolve_conversion raw = Inl err \<longrightarrow>
      convert_files enc base raw files session_id fs = (fs, BadRequest err))
   \<and> (resolve_conversion raw = Inr (cid, conv) \<longrightarrow>
        (files = [] \<or> list_all (\<lambda>f. filename f = []) files \<longrightarrow>
           convert_files enc base raw files session_id fs = (fs, BadRequest EmptyBatch))
      \<and> (\<not> (files = [] \<or> list_all (\<lambda>f. filename f = []) files) \<and> 20 < length files \<longrightarrow>
           convert_files enc base raw files session_id fs = (fs, BadRequest TooManyFiles)))"
  by (simp add: convert_files_def MAX_FILES_PER_BATCH_def)

text \<open>The witness: 21 named parts are too many, and an unknown identifier is refused.\<close>

theorem batch_checks_before_processing_witness:
  "resolve_conversion ''pdf-to-png'' = Inr (''pdf-to-png'', convert_pdf_to_png 200)
   \<and> \<not> (replicate 21 \<lparr>filename = ''a.pdf'', hex8 = ''0a1b2c3d'', body_len = 0,
                          body = Bytes (Inl ''no PDF'') (Inl ''no image'')\<rparr> = []
        \<or> list_all (\<lambda>f. filename f = [])
             (replicate 21 \<lparr>filename = ''a.pdf'', hex8 = ''0a1b2c3d'', body_len = 0,
                          body = Bytes (Inl ''no PDF'') (Inl ''no image'')\<rparr>))
   \<and> 20 < length (replicate 21 \<lparr>filename = ''a.pdf'', hex8 = ''0a1b2c3d'', body_len = 0,
                          body = Bytes (Inl ''no PDF'') (Inl ''no image'')\<rparr>)
   \<and> convert_files (\<lambda>c. 0) [''srv''] ''pdf-to-png''
       (replicate 21 \<lparr>filename = ''a.pdf'', hex8 = ''0a1b2c3d'', body_len = 0,
                          body = Bytes (Inl ''no PDF'') (Inl ''no image'')\<rparr>)
       ''5f0c1a2b-9d4'' [([''srv''], Dir)]
     = ([([''srv''], Dir)], BadRequest TooManyFiles)
   \<and> resolve_conversion ''xyz-to-abc'' = Inl (UnsupportedConversion ''xyz'' ''abc'')
   \<and> convert_files (\<lambda>c. 0) [''srv''] ''xyz-to-abc'' [] ''5f0c1a2b-9d4'' [([''srv''], Dir)]
     = ([([''srv''], Dir)], BadRequest (UnsupportedConversion ''xyz'' ''abc''))"
proof -
  have r: "resolve_conversion ''pdf-to-png'' = Inr (''pdf-to-png'', convert_pdf_to_png 200)"
    by (simp add: resolve_eval)
  have u: "resolve_conversion ''xyz-to-abc'' = Inl (UnsupportedConversion ''xyz'' ''abc'')"
    by (simp add: resolve_eval)
  let ?files = "replicate 21 \<lparr>filename = ''a.pdf'', hex8 = ''0a1b2c3d'', body_len = 0,
                          body = Bytes (Inl ''no PDF'') (Inl ''no image'')\<rparr>"
  have n: "\<not> (?files = [] \<or> list_all (\<lambda>f. filename f = []) ?files)" "20 < length ?files"
    by (simp_all add: list_all_iff)
  from batch_checks_before_processing[of "''pdf-to-png''" _ "\<lambda>c. 0" "[''srv'']" ?files
      "''5f0c1a2b-9d4''" "[([''srv''], Dir)]" "''pdf-to-png''" "convert_pdf_to_png 200"] r n
  have a: "convert_files (\<lambda>c. 0) [''srv''] ''pdf-to-png'' ?files ''5f0c1a2b-9d4'' [([''srv''], Dir)]
     = ([([''srv''], Dir)], BadRequest TooManyFiles)" by blast
  from batch_checks_before_processing[of "''xyz-to-abc''" "UnsupportedConversion ''xyz'' ''abc''"
      "\<lambda>c. 0" "[''srv'']" "[]" "''5f0c1a2b-9d4''" "[([''srv''], Dir)]"] u
  have b: "convert_files (\<lambda>c. 0) [''srv''] ''xyz-to-abc'' [] ''5f0c1a2b-9d4'' [([''srv''], Dir)]
     = ([([''srv''], Dir)], BadRequest (UnsupportedConversion ''xyz'' ''abc''))" by blast
  from r u n a b show ?thesis by blast
qed

subsection \<open>Identifiers without an entry in the options table\<close>




text \<open>The two spellings side by side: under \<^verbatim>\<open>jpg-to-png\<close> the text file is rejected for
  its extension, under \<^verbatim>\<open>jpeg-to-png\<close> it is saved and handed to the converter, whose
  failure is what the response reports.\<close>

lemma text_file_under_both_spellings:
  "snd (convert_files (\<lambda>c. 0) [''srv''] ''jpg-to-png''
          [\<lparr>filename = ''notes.txt'', hex8 = ''0a1b2c3d'', body_len = 12,
             body = Bytes (Inl ''no PDF'') (Inl ''no image'')\<rparr>]
          ''5f0c1a2b-9d4'' [([''srv''], Dir)])
     = OkBatch \<lparr>session_id_of = ''5f0c1a2b-9d4'', batch_results = [],
         batch_errors = [\<lparr>failed_name = ''notes.txt'',
            message = ''Invalid file type '' @ [CHR 0x27] @ ''.txt'' @ [CHR 0x27] @
                      ''. Expected: jpg, jpeg''\<rparr>],
         total_converted = 0, total_errors = 1, download_all_url = None\<rparr>"
  "snd (convert_files (\<lambda>c. 0) [''srv''] ''jpeg-to-png''
          [\<lparr>filename = ''notes.txt'', hex8 = ''0a1b2c3d'', body_len = 12,
             body = Bytes (Inl ''no PDF'') (Inl ''no image'')\<rparr>]
          ''5f0c1a2b-9d4'' [([''srv''], Dir)])
     = OkBatch \<lparr>session_id_of = ''5f0c1a2b-9d4'', batch_results = [],
         batch_errors = [\<lparr>failed_name = ''notes.txt'',
            message = ''Failed to convert image: no image''\<rparr>],
         total_converted = 0, total_errors = 1, download_all_url = None\<rparr>"
  by (simp_all add: resolve_eval pipeline_eval path_eval fs_eval converter_eval lower_def
        lower_char_def Let_def)

subsection \<open>Transparency when an image is converted\<close>

text \<open>
  Claim C8 asks that a source with transparency, the palette-with-alpha mode included, is
  composited over white when the target is JPEG. The code does not do that for the mode
  \<^verbatim>\<open>PA\<close>: the mode is in the tuple of transparent modes and the white background is created
  for it, but only \<^verbatim>\<open>RGBA\<close> and \<^verbatim>\<open>LA\<close> are pasted, and \<^verbatim>\<open>PA\<close> falls to the branch that converts
  to \<^verbatim>\<open>RGB\<close> directly. The theorem evaluates the transparency handling and the converter
  \<^verbatim>\<open>convert_png_to_jpg\<close> on such an image.
\<close>

theorem palette_alpha_not_composited_for_jpeg:
  "prepare_image ''JPEG'' ''PA'' t = Converted ''RGB'' (Opened ''PA'' t)
   \<and> prepare_image ''JPEG'' ''PA'' t \<noteq> PastedOnWhite (Opened ''PA'' t)
   \<and> convert_png_to_jpg (\<lambda>c. 0)
        [([''srv''], Dir), ([''srv'', ''up''], Dir), ([''srv'', ''out''], Dir),
         ([''srv'', ''up'', ''0a1b2c3d_x.png''], File 12 (Bytes (Inl ''no PDF'') (Inr (''PA'', False))))]
        [''srv'', ''up'', ''0a1b2c3d_x.png''] [''srv'', ''out'']
     = ([([''srv''], Dir), ([''srv'', ''up''], Dir), ([''srv'', ''out''], Dir),
         ([''srv'', ''up'', ''0a1b2c3d_x.png''], File 12 (Bytes (Inl ''no PDF'') (Inr (''PA'', False)))),
         ([''srv'', ''out'', ''0a1b2c3d_x.jpg''],
            File 0 (SavedImage ''JPEG'' (Converted ''RGB'' (Opened ''PA'' False))))],
        Inr [[''srv'', ''out'', ''0a1b2c3d_x.jpg'']])"
  by (simp add: converter_eval path_eval fs_eval Let_def)

text \<open>The rest of what the claim says holds: for JPEG the modes \<^verbatim>\<open>RGBA\<close>, \<^verbatim>\<open>LA\<close> and \<^verbatim>\<open>P\<close> are
  pasted on white and every mode outside the tuple is converted to \<^verbatim>\<open>RGB\<close>; for PNG and WebP
  the saved image has four channels exactly when the source carries transparency.\<close>

lemma transparency_policy_elsewhere:
  "m \<in> set [''RGBA'', ''LA''] \<Longrightarrow> prepare_image ''JPEG'' m t = PastedOnWhite (Opened m t)"
  "prepare_image ''JPEG'' ''P'' t = PastedOnWhite (Converted ''RGBA'' (Opened ''P'' t))"
  "m \<notin> set [''RGBA'', ''LA'', ''PA'', ''P''] \<Longrightarrow> prepare_image ''JPEG'' m t = Converted ''RGB'' (Opened m t)"
  "target \<in> set [''PNG'', ''WEBP''] \<Longrightarrow>
     prepare_image target m t
       = Converted (if carries_transparency m t then ''RGBA'' else ''RGB'') (Opened m t)"
  by (auto simp add: prepare_image_def carries_transparency_def)

end
